theory Spec2Isabelle
  imports Main
begin

section \<open>Thrown values, promises and the process\<close>

text \<open>
  A JavaScript \<^verbatim>\<open>throw\<close> (or a promise rejection) carries an arbitrary value. The
  handlers of \<^verbatim>\<open>CommandLineParser\<close> tell three kinds apart:
  \<^item> an instance of \<^verbatim>\<open>CommandLineParserExitError\<close>, with its exit code and message
    (an absent exit code or message is falsy like \<open>0\<close> and the empty string, and is
    written as such);
  \<^item> any other value on which \<^verbatim>\<open>.message\<close> can be read: an \<^verbatim>\<open>Error\<close> with its
    message (a value without a message reads as the empty string: both are falsy);
  \<^item> \<^verbatim>\<open>undefined\<close> and \<^verbatim>\<open>null\<close>, on which reading a property raises a TypeError.

  Values whose \<^verbatim>\<open>message\<close> is not a string are left out.
\<close>

datatype fault =
    CommandLineParserExitError int string
  | Error string
  | Nullish

text \<open>The TypeError of reading \<^verbatim>\<open>.message\<close> of \<^verbatim>\<open>undefined\<close> (the wording is the runtime's).\<close>

definition TypeError_message :: fault where
  "TypeError_message = Error (''Cannot read property '' @ [CHR 0x27] @ ''message'' @ [CHR 0x27] @ '' of undefined'')"

text \<open>The settled state of a promise; \<open>Pending\<close> is a promise that never settles.\<close>

datatype 'a promise = Resolved 'a | Rejected fault | Pending

text \<open>A line written to a console stream; \<open>Red s\<close> is \<^verbatim>\<open>colors.red(s)\<close>.\<close>

datatype line = Plain string | Red string

record process =
  argv :: "string list"
  exitCode :: "int option"
  stdout :: "line list"
  stderr :: "line list"

definition console_log :: "string \<Rightarrow> process \<Rightarrow> process" where
  "console_log s env = env\<lparr>stdout := stdout env @ [Plain s]\<rparr>"

definition console_error :: "line \<Rightarrow> process \<Rightarrow> process" where
  "console_error l env = env\<lparr>stderr := stderr env @ [l]\<rparr>"

text \<open>\<^verbatim>\<open>!process.exitCode\<close>: the exit code is unset or zero.\<close>

definition exitCode_falsy :: "process \<Rightarrow> bool" where
  "exitCode_falsy env = (exitCode env = None \<or> exitCode env = Some 0)"

text \<open>\<^verbatim>\<open>String.prototype.trim\<close>, on the whitespace and line terminators of ASCII.\<close>

definition is_whitespace :: "char \<Rightarrow> bool" where
  "is_whitespace c = (c \<in> set [CHR 0x09, CHR 0x0A, CHR 0x0B, CHR 0x0C, CHR 0x0D, CHR 0x20])"

definition trim :: "string \<Rightarrow> string" where
  "trim s = rev (dropWhile is_whitespace (rev (dropWhile is_whitespace s)))"

section \<open>Utilities.executeCommand\<close>

record spawn_error =
  errno :: string

record spawn_options =
  cwd :: string
  shell :: bool
  stdio :: "nat list option"

text \<open>\<^verbatim>\<open>SpawnSyncReturns\<close>: only the \<^verbatim>\<open>error\<close> field is read; it is absent when the spawn worked.\<close>

record spawn_result =
  error :: "spawn_error option"

datatype command_fault = TypeError | SpawnError spawn_error

text \<open>
  \<^verbatim>\<open>child_process.spawnSync\<close> is the parameter \<open>spawnSync\<close>. The result pairs what the
  call throws (\<open>Inl\<close>) or that it returns (\<open>Inr ()\<close>) with the commands spawned, in order.
  Reading \<^verbatim>\<open>.errno\<close> of an absent \<^verbatim>\<open>result.error\<close> raises a TypeError.
\<close>

definition executeCommand ::
  "(string \<Rightarrow> string list \<Rightarrow> spawn_options \<Rightarrow> spawn_result) \<Rightarrow>
   string \<Rightarrow> string list \<Rightarrow> string \<Rightarrow> bool \<Rightarrow> (command_fault + unit) \<times> string list" where
  "executeCommand spawnSync command args workingDirectory suppressOutput =
     (let options = \<lparr>cwd = workingDirectory, shell = True,
                      stdio = (if suppressOutput then None else Some [0, 1, 2])\<rparr>;
          result = spawnSync command args options
      in case error result of
           None \<Rightarrow> (Inl TypeError, [command])
         | Some e \<Rightarrow>
             (let (result', spawned) =
                    (if errno e = ''ENOENT''
                     then (spawnSync (command @ ''.cmd'') args options, [command, command @ ''.cmd''])
                     else (result, [command]))
              in case error result' of
                   Some e' \<Rightarrow> (Inl (SpawnError e'), spawned)
                 | None \<Rightarrow> (Inr (), spawned)))"

text \<open>A spawn that always works, and one that finds only the \<^verbatim>\<open>.cmd\<close> variant.\<close>

definition spawn_ok :: "string \<Rightarrow> string list \<Rightarrow> spawn_options \<Rightarrow> spawn_result" where
  "spawn_ok command args options = \<lparr>error = None\<rparr>"

definition spawn_cmd_only :: "string \<Rightarrow> string list \<Rightarrow> spawn_options \<Rightarrow> spawn_result" where
  "spawn_cmd_only command args options =
     (if command = ''npm.cmd'' then \<lparr>error = None\<rparr> else \<lparr>error = Some \<lparr>errno = ''ENOENT''\<rparr>\<rparr>)"

section \<open>The parameter provider\<close>

datatype param_value =
    FlagValue bool
  | StringValue string
  | IntegerValue int
  | StringListValue "string list"

text \<open>\<^verbatim>\<open>ICommandLineParserData\<close>: the selected action's name and the raw values by key.\<close>

record command_line_parser_data =
  action :: string
  rawValues :: "string \<rightharpoonup> param_value"

text \<open>
  \<^verbatim>\<open>CommandLineParameterProvider\<close>, the base class of parser and action: the keys of
  the declared parameters, and the parsed values once parsing has completed.
\<close>

record command_line_parameter_provider =
  parameters :: "string list"
  parsedValues :: "(string \<rightharpoonup> param_value) option"

text \<open>
  Modelled from the spec: \<^verbatim>\<open>CommandLineParameterProvider._processParsedData\<close>, whose
  source file is not among the sources. It "accepts the engine's raw parsed-value map and
  converts it into the typed values behind each handle": every declared parameter takes
  the value the map has for its key.
\<close>

definition processParsedData ::
  "'a command_line_parameter_provider_scheme \<Rightarrow> command_line_parser_data \<Rightarrow>
   'a command_line_parameter_provider_scheme" where
  "processParsedData provider data =
     provider\<lparr>parsedValues := Some (rawValues data |` set (parameters provider))\<rparr>"

text \<open>
  Modelled from the spec: reading a parameter handle, whose source file is not among the
  sources. "The handle's value is unreadable until parsing has completed for this
  instance, and reading it before that point signals a usage fault."
\<close>

definition parameter_value ::
  "'a command_line_parameter_provider_scheme \<Rightarrow> string \<Rightarrow> fault + param_value option" where
  "parameter_value provider key =
     (case parsedValues provider of
        None \<Rightarrow> Inl (Error ''The parameter value cannot be read before parsing has completed'')
      | Some vs \<Rightarrow> Inr (vs key))"

section \<open>Actions and the grammar engine\<close>

text \<open>
  \<^verbatim>\<open>CommandLineAction\<close> (its source file is not among the sources): the fields the
  parser reads. \<open>execute_action\<close> is the action's \<^verbatim>\<open>_execute()\<close>, the author's
  asynchronous body: given the parsed values and the process it throws synchronously
  (\<open>Inl\<close>) or returns a promise (\<open>Inr\<close>), and leaves the process as its effects made it.
\<close>

record command_line_action = command_line_parameter_provider +
  actionName :: string
  execute_action ::
    "(string \<rightharpoonup> param_value) option \<Rightarrow> process \<Rightarrow> (fault + unit promise) \<times> process"

text \<open>
  The \<^verbatim>\<open>argparse\<close> library is a parameter: what \<^verbatim>\<open>printHelp\<close> and \<^verbatim>\<open>parseArgs\<close> do for
  the actions registered so far, and whether \<^verbatim>\<open>action._buildParser\<close> (which adds the
  action to the sub-command grammar) throws.
\<close>

record argument_parser =
  printHelp :: "command_line_action list \<Rightarrow> process \<Rightarrow> process"
  parseArgs ::
    "command_line_action list \<Rightarrow> string list \<Rightarrow> process \<Rightarrow>
     (fault + command_line_parser_data) \<times> process"
  buildParser :: "command_line_action \<Rightarrow> fault option"

section \<open>CommandLineParser\<close>

text \<open>
  Action objects are shared by reference between \<^verbatim>\<open>_actions\<close>, \<^verbatim>\<open>_actionsByName\<close> and
  \<^verbatim>\<open>selectedAction\<close>: \<open>objects\<close> is the store that maps a reference to its object.
\<close>

type_synonym action_ref = nat

record command_line_parser = command_line_parameter_provider +
  toolFilename :: string
  toolDescription :: string
  selectedAction :: "action_ref option"
  argumentParser :: argument_parser
  actions :: "action_ref list"
  actionsByName :: "string \<rightharpoonup> action_ref"
  executed :: bool
  objects :: "action_ref \<Rightarrow> command_line_action"

text \<open>
  The constructor; \<open>globalParameters\<close> are the keys that the subclass's
  \<^verbatim>\<open>onDefineParameters\<close> declares.
\<close>

definition new_CommandLineParser ::
  "string \<Rightarrow> string \<Rightarrow> argument_parser \<Rightarrow> string list \<Rightarrow>
   (action_ref \<Rightarrow> command_line_action) \<Rightarrow> command_line_parser" where
  "new_CommandLineParser filename description engine globalParameters store =
     \<lparr>parameters = globalParameters, parsedValues = None,
      toolFilename = filename, toolDescription = description,
      selectedAction = None, argumentParser = engine,
      actions = [], actionsByName = Map.empty, executed = False, objects = store\<rparr>"

definition registered :: "command_line_parser \<Rightarrow> command_line_action list" where
  "registered p = map (objects p) (actions p)"

text \<open>\<open>addAction\<close> returns the fault it throws, if any, and the parser as it leaves it.\<close>

definition addAction :: "command_line_parser \<Rightarrow> action_ref \<Rightarrow> fault option \<times> command_line_parser" where
  "addAction p r =
     (case buildParser (argumentParser p) (objects p r) of
        Some err \<Rightarrow> (Some err, p)
      | None \<Rightarrow>
          (None, p\<lparr>actions := actions p @ [r],
                   actionsByName := (actionsByName p)(actionName (objects p r) \<mapsto> r)\<rparr>))"

definition tryGetAction :: "command_line_parser \<Rightarrow> string \<Rightarrow> action_ref option" where
  "tryGetAction p name = actionsByName p name"

definition getAction :: "command_line_parser \<Rightarrow> string \<Rightarrow> fault + action_ref" where
  "getAction p name =
     (case tryGetAction p name of
        None \<Rightarrow> Inl (Error (''The action '' @ [CHR 0x22] @ name @ [CHR 0x22] @ '' was not defined''))
      | Some r \<Rightarrow> Inr r)"

text \<open>The loop over \<^verbatim>\<open>_actions\<close> of \<^verbatim>\<open>executeWithoutErrorHandling\<close>, with its \<^verbatim>\<open>break\<close>.\<close>

fun dispatch :: "action_ref list \<Rightarrow> command_line_parser_data \<Rightarrow> command_line_parser \<Rightarrow> command_line_parser" where
  "dispatch [] data p = p"
| "dispatch (r # rs) data p =
     (if actionName (objects p r) = action data
      then p\<lparr>selectedAction := Some r,
             objects := (objects p)(r := processParsedData (objects p r) data)\<rparr>
      else dispatch rs data p)"

text \<open>
  \<^verbatim>\<open>onExecute\<close>, as the class defines it: \<^verbatim>\<open>this.selectedAction!._execute()\<close>, which
  raises a TypeError when no action is selected.
\<close>

definition onExecute :: "command_line_parser \<Rightarrow> process \<Rightarrow> (fault + unit promise) \<times> process" where
  "onExecute p env =
     (case selectedAction p of
        None \<Rightarrow> (Inl (Error ''Cannot read property _execute of undefined''), env)
      | Some r \<Rightarrow> execute_action (objects p r) (parsedValues (objects p r)) env)"

definition already_executed :: fault where
  "already_executed = Error ''execute() was already called for this parser instance''"

text \<open>
  The \<^verbatim>\<open>try\<close> block of \<^verbatim>\<open>executeWithoutErrorHandling\<close>: what it throws (\<open>Inl\<close>) or the
  promise it returns (\<open>Inr\<close>), the parser and the process as it leaves them.
\<close>

definition try_block ::
  "command_line_parser \<Rightarrow> string list option \<Rightarrow> process \<Rightarrow>
   (fault + unit promise) \<times> command_line_parser \<times> process" where
  "try_block p args env =
     (if executed p then (Inl already_executed, p, env)
      else
        (let p1 = p\<lparr>executed := True\<rparr>;
             args1 = (case args of None \<Rightarrow> drop 2 (argv env) | Some a \<Rightarrow> a)
         in if length args1 = 0
            then (Inr (Resolved ()), p1, printHelp (argumentParser p1) (registered p1) env)
            else
              (case parseArgs (argumentParser p1) (registered p1) args1 env of
                 (Inl err, env1) \<Rightarrow> (Inl err, p1, env1)
               | (Inr data, env1) \<Rightarrow>
                   (let p2 = processParsedData p1 data;
                        p3 = dispatch (actions p2) data p2
                    in if selectedAction p3 = None
                       then (Inl (Error ''Unrecognized action''), p3, env1)
                       else (case onExecute p3 env1 of (r, env2) \<Rightarrow> (r, p3, env2))))))"

text \<open>The \<^verbatim>\<open>catch\<close> block of \<^verbatim>\<open>executeWithoutErrorHandling\<close>.\<close>

definition catch_block :: "fault \<Rightarrow> process \<Rightarrow> unit promise \<times> process" where
  "catch_block err env =
     (case err of
        CommandLineParserExitError code msg \<Rightarrow>
          (if code = 0
           then (Resolved (), if msg \<noteq> [] then console_log msg env else env)
           else (Rejected err, env))
      | _ \<Rightarrow> (Rejected err, env))"

definition executeWithoutErrorHandling ::
  "command_line_parser \<Rightarrow> string list option \<Rightarrow> process \<Rightarrow>
   unit promise \<times> command_line_parser \<times> process" where
  "executeWithoutErrorHandling p args env =
     (case try_block p args env of
        (Inr promise, p', env') \<Rightarrow> (promise, p', env')
      | (Inl err, p', env') \<Rightarrow>
          (case catch_block err env' of (promise, env'') \<Rightarrow> (promise, p', env'')))"

text \<open>
  The rejection handler of \<^verbatim>\<open>execute\<close>: \<open>Inr b\<close> when it returns \<open>b\<close>, \<open>Inl\<close> when it
  throws itself, which rejects the promise that \<^verbatim>\<open>execute\<close> returns.
\<close>

definition execute_catch :: "fault \<Rightarrow> process \<Rightarrow> (fault + bool) \<times> process" where
  "execute_catch err env =
     (case err of
        CommandLineParserExitError code msg \<Rightarrow>
          (let env1 = (if msg \<noteq> [] then console_error (Plain msg) env else env);
               env2 = (if exitCode_falsy env1 then env1\<lparr>exitCode := Some code\<rparr> else env1)
           in (Inr False, env2))
      | Error msg \<Rightarrow>
          (let message = trim (if msg \<noteq> [] then msg else ''An unknown error occurred'');
               env1 = console_error (Red (''Error: '' @ message)) env;
               env2 = (if exitCode_falsy env1 then env1\<lparr>exitCode := Some 1\<rparr> else env1)
           in (Inr False, env2))
      | Nullish \<Rightarrow> (Inl TypeError_message, env))"

definition execute ::
  "command_line_parser \<Rightarrow> string list option \<Rightarrow> process \<Rightarrow>
   bool promise \<times> command_line_parser \<times> process" where
  "execute p args env =
     (case executeWithoutErrorHandling p args env of
        (Resolved u, p', env') \<Rightarrow> (Resolved True, p', env')
      | (Pending, p', env') \<Rightarrow> (Pending, p', env')
      | (Rejected err, p', env') \<Rightarrow>
          (case execute_catch err env' of
             (Inr b, env'') \<Rightarrow> (Resolved b, p', env'')
           | (Inl err', env'') \<Rightarrow> (Rejected err', p', env'')))"

section \<open>A client that calls the entry points in sequence\<close>

datatype entry_point = Execute | ExecuteWithoutErrorHandling

datatype outcome = ExecuteResult "bool promise" | ExecuteWithoutErrorHandlingResult "unit promise"

fun calls ::
  "(entry_point \<times> string list option) list \<Rightarrow> command_line_parser \<Rightarrow> process \<Rightarrow>
   outcome list \<times> command_line_parser \<times> process" where
  "calls [] p env = ([], p, env)"
| "calls ((Execute, args) # cs) p env =
     (case execute p args env of
        (r, p1, env1) \<Rightarrow>
          (case calls cs p1 env1 of (rs, p2, env2) \<Rightarrow> (ExecuteResult r # rs, p2, env2)))"
| "calls ((ExecuteWithoutErrorHandling, args) # cs) p env =
     (case executeWithoutErrorHandling p args env of
        (r, p1, env1) \<Rightarrow>
          (case calls cs p1 env1 of
             (rs, p2, env2) \<Rightarrow> (ExecuteWithoutErrorHandlingResult r # rs, p2, env2)))"

text \<open>How a call ends on a parser that was executed before.\<close>

definition usage_fault_outcome :: "entry_point \<Rightarrow> outcome" where
  "usage_fault_outcome e =
     (case e of
        Execute \<Rightarrow> ExecuteResult (Resolved False)
      | ExecuteWithoutErrorHandling \<Rightarrow> ExecuteWithoutErrorHandlingResult (Rejected already_executed))"

text \<open>What \<^verbatim>\<open>execute\<close> reports for the usage fault of a second call.\<close>

definition report_already_executed :: "process \<Rightarrow> process" where
  "report_already_executed env =
     (let env1 = console_error
                   (Red ''Error: execute() was already called for this parser instance'') env
      in if exitCode_falsy env1 then env1\<lparr>exitCode := Some 1\<rparr> else env1)"

section \<open>The states a parser reaches through its public methods\<close>

inductive reachable :: "command_line_parser \<Rightarrow> bool" where
  constructed: "reachable (new_CommandLineParser filename description engine globalParameters store)"
| added: "reachable p \<Longrightarrow> reachable (snd (addAction p r))"
| executed_without_error_handling:
    "reachable p \<Longrightarrow> reachable (fst (snd (executeWithoutErrorHandling p args env)))"
| executed_with_error_handling:
    "reachable p \<Longrightarrow> reachable (fst (snd (execute p args env)))"

section \<open>An example tool\<close>

definition example_engine :: argument_parser where
  "example_engine =
     \<lparr>printHelp = (\<lambda>acts env. console_log ''usage: tool <command>'' env),
      parseArgs = (\<lambda>acts args env.
        case args of
          [] \<Rightarrow> (Inl (CommandLineParserExitError 2 ''tool: error: too few arguments''), env)
        | a # rest \<Rightarrow>
            if a = ''-h''
            then (Inl (CommandLineParserExitError 0 []), console_log ''usage: tool <command>'' env)
            else if a \<in> set (map actionName acts)
            then (Inr \<lparr>action = a,
                       rawValues = [''verbose'' \<mapsto> FlagValue (''--verbose'' \<in> set rest)]\<rparr>, env)
            else (Inl (CommandLineParserExitError 2 ''tool: error: invalid choice''), env)),
      buildParser = (\<lambda>a. None)\<rparr>"

text \<open>
  Four action objects: two named \<^verbatim>\<open>build\<close>, whose bodies succeed; \<^verbatim>\<open>deploy\<close>, whose body
  returns \<^verbatim>\<open>Promise.reject()\<close>; \<^verbatim>\<open>publish\<close>, whose body returns a promise rejected with
  \<^verbatim>\<open>new CommandLineParserExitError(0, 'published')\<close>.
\<close>

definition example_objects :: "action_ref \<Rightarrow> command_line_action" where
  "example_objects r =
     (if r = 0 then
        \<lparr>parameters = [''verbose''], parsedValues = None, actionName = ''build'',
         execute_action = (\<lambda>vs env. (Inr (Resolved ()), env))\<rparr>
      else if r = 1 then
        \<lparr>parameters = [], parsedValues = None, actionName = ''build'',
         execute_action = (\<lambda>vs env. (Inr (Resolved ()), console_log ''second build'' env))\<rparr>
      else if r = 2 then
        \<lparr>parameters = [], parsedValues = None, actionName = ''deploy'',
         execute_action = (\<lambda>vs env. (Inr (Rejected Nullish), env))\<rparr>
      else
        \<lparr>parameters = [], parsedValues = None, actionName = ''publish'',
         execute_action = (\<lambda>vs env. (Inr (Rejected (CommandLineParserExitError 0 ''published'')), env))\<rparr>)"

definition example_new :: command_line_parser where
  "example_new = new_CommandLineParser ''tool'' ''An example tool'' example_engine [] example_objects"

definition example_parser :: command_line_parser where
  "example_parser = snd (addAction (snd (addAction (snd (addAction example_new 0)) 2)) 3)"

definition duplicate_parser :: command_line_parser where
  "duplicate_parser = snd (addAction (snd (addAction example_new 0)) 1)"

definition example_process :: process where
  "example_process = \<lparr>argv = [''node'', ''tool.js''], exitCode = None, stdout = [], stderr = []\<rparr>"

section \<open>Properties of Utilities.executeCommand\<close>

lemma executeCommand_first_spawn:
  "\<exists>rest. snd (executeCommand spawnSync command args wd so) = command # rest"
  by (auto simp: executeCommand_def Let_def split: option.splits prod.splits if_splits)

lemma executeCommand_error_not_ENOENT:
  assumes "error (spawnSync command args \<lparr>cwd = wd, shell = True, stdio = (if so then None else Some [0, 1, 2])\<rparr>) = Some e"
    and "errno e \<noteq> ''ENOENT''"
  shows "executeCommand spawnSync command args wd so = (Inl (SpawnError e), [command])"
  using assms by (simp add: executeCommand_def Let_def)

lemma executeCommand_retry:
  assumes "error (spawnSync command args \<lparr>cwd = wd, shell = True, stdio = (if so then None else Some [0, 1, 2])\<rparr>) = Some e"
    and "errno e = ''ENOENT''"
  shows "executeCommand spawnSync command args wd so =
     ((case error (spawnSync (command @ ''.cmd'') args \<lparr>cwd = wd, shell = True, stdio = (if so then None else Some [0, 1, 2])\<rparr>) of
         Some e' \<Rightarrow> Inl (SpawnError e') | None \<Rightarrow> Inr ()),
      [command, command @ ''.cmd''])"
  using assms by (simp add: executeCommand_def Let_def split: option.splits)

lemma executeCommand_spawn_without_error:
  assumes "error (spawnSync command args \<lparr>cwd = wd, shell = True, stdio = (if so then None else Some [0, 1, 2])\<rparr>) = None"
  shows "executeCommand spawnSync command args wd so = (Inl TypeError, [command])"
  using assms by (simp add: executeCommand_def Let_def)

lemma executeCommand_retry_example:
  "executeCommand spawn_cmd_only ''npm'' [''install''] ''.'' False = (Inr (), [''npm'', ''npm.cmd''])"
  by (simp add: executeCommand_def spawn_cmd_only_def)

text \<open>
  C8. The claim says that a spawn whose result carries no error returns normally. At a
  bare command whose first spawn works, \<open>executeCommand\<close> throws a TypeError instead
  (it reads \<^verbatim>\<open>.errno\<close> of the absent error), after spawning the bare command only.
\<close>

theorem executeCommand_throws_when_spawn_succeeds:
  "executeCommand spawn_ok ''git'' [''status''] ''.'' False = (Inl TypeError, [''git''])"
  by (simp add: executeCommand_def spawn_ok_def)

section \<open>The dispatch loop and the try block\<close>

lemma dispatch_keeps:
  "executed (dispatch rs data p) = executed p"
  "actions (dispatch rs data p) = actions p"
  "actionsByName (dispatch rs data p) = actionsByName p"
  "argumentParser (dispatch rs data p) = argumentParser p"
  "actionName (objects (dispatch rs data p) r) = actionName (objects p r)"
  by (induction rs) (simp_all add: processParsedData_def)

lemma dispatch_find:
  "dispatch rs data p =
     (case find (\<lambda>r. actionName (objects p r) = action data) rs of
        None \<Rightarrow> p
      | Some r \<Rightarrow> p\<lparr>selectedAction := Some r,
                     objects := (objects p)(r := processParsedData (objects p r) data)\<rparr>)"
  by (induction rs) simp_all

lemma try_block_executed:
  "executed p \<Longrightarrow> try_block p args env = (Inl already_executed, p, env)"
  by (simp add: try_block_def)

lemma try_block_sets_executed: "executed (fst (snd (try_block p args env)))"
  by (auto simp: try_block_def Let_def dispatch_keeps processParsedData_def
           split: prod.splits sum.splits option.splits)

lemma try_block_keeps:
  "actions (fst (snd (try_block p args env))) = actions p"
  "actionsByName (fst (snd (try_block p args env))) = actionsByName p"
  "argumentParser (fst (snd (try_block p args env))) = argumentParser p"
  "actionName (objects (fst (snd (try_block p args env))) r) = actionName (objects p r)"
  by (auto simp: try_block_def Let_def dispatch_keeps processParsedData_def
           split: prod.splits sum.splits option.splits)

lemma try_block_help:
  assumes "\<not> executed p" and "(case args of None \<Rightarrow> drop 2 (argv env) | Some a \<Rightarrow> a) = []"
  shows "try_block p args env =
           (Inr (Resolved ()), p\<lparr>executed := True\<rparr>, printHelp (argumentParser p) (registered p) env)"
  using assms by (simp add: try_block_def Let_def registered_def)

lemma try_block_parse_fault:
  assumes "\<not> executed p" and "(case args of None \<Rightarrow> drop 2 (argv env) | Some a \<Rightarrow> a) = args1"
    and "args1 \<noteq> []" and "parseArgs (argumentParser p) (registered p) args1 env = (Inl err, env1)"
  shows "try_block p args env = (Inl err, p\<lparr>executed := True\<rparr>, env1)"
  using assms by (simp add: try_block_def Let_def registered_def)

lemma try_block_dispatch:
  assumes "\<not> executed p" and "(case args of None \<Rightarrow> drop 2 (argv env) | Some a \<Rightarrow> a) = args1"
    and "args1 \<noteq> []" and "parseArgs (argumentParser p) (registered p) args1 env = (Inr data, env1)"
    and "find (\<lambda>r. actionName (objects p r) = action data) (actions p) = Some r"
  shows "fst (snd (try_block p args env)) =
           p\<lparr>parsedValues := Some (rawValues data |` set (parameters p)),
             executed := True, selectedAction := Some r,
             objects := (objects p)(r := processParsedData (objects p r) data)\<rparr>"
  using assms
  by (simp add: try_block_def Let_def registered_def dispatch_find processParsedData_def
           split: prod.splits)

lemma executeWithoutErrorHandling_parser:
  "fst (snd (executeWithoutErrorHandling p args env)) = fst (snd (try_block p args env))"
  by (auto simp: executeWithoutErrorHandling_def split: prod.splits sum.splits)

lemma execute_parser:
  "fst (snd (execute p args env)) = fst (snd (executeWithoutErrorHandling p args env))"
  by (auto simp: execute_def split: prod.splits sum.splits promise.splits)

lemma executed_after_executeWithoutErrorHandling:
  "executed (fst (snd (executeWithoutErrorHandling p args env)))"
  by (simp add: executeWithoutErrorHandling_parser try_block_sets_executed)

lemma executed_after_execute: "executed (fst (snd (execute p args env)))"
  by (simp add: execute_parser executed_after_executeWithoutErrorHandling)

section \<open>The example tool\<close>

lemma example_new_simps:
  "actions example_new = []"
  "objects example_new = example_objects"
  "buildParser (argumentParser example_new) a = None"
  by (simp_all add: example_new_def new_CommandLineParser_def example_engine_def)

lemma example_parser_simps:
  "executed example_parser = False"
  "selectedAction example_parser = None"
  "actions example_parser = [0, 2, 3]"
  "objects example_parser = example_objects"
  "argumentParser example_parser = example_engine"
  "parameters example_parser = []"
  by (simp_all add: example_parser_def example_new_def addAction_def new_CommandLineParser_def
        example_engine_def)

lemma duplicate_parser_simps:
  "executed duplicate_parser = False"
  "selectedAction duplicate_parser = None"
  "actions duplicate_parser = [0, 1]"
  "objects duplicate_parser = example_objects"
  "argumentParser duplicate_parser = example_engine"
  "parameters duplicate_parser = []"
  by (simp_all add: duplicate_parser_def example_new_def addAction_def new_CommandLineParser_def
        example_engine_def)

lemma reachable_example_parser: "reachable example_parser"
  unfolding example_parser_def example_new_def by (intro reachable.added reachable.constructed)

lemma reachable_duplicate_parser: "reachable duplicate_parser"
  unfolding duplicate_parser_def example_new_def by (intro reachable.added reachable.constructed)

section \<open>Calling an entry point again\<close>

lemma executeWithoutErrorHandling_executed:
  "executed p \<Longrightarrow> executeWithoutErrorHandling p args env = (Rejected already_executed, p, env)"
  by (simp add: executeWithoutErrorHandling_def try_block_executed catch_block_def already_executed_def)

lemma trim_already_executed:
  "trim ''execute() was already called for this parser instance'' =
     ''execute() was already called for this parser instance''"
  by (simp add: trim_def is_whitespace_def)

lemma execute_executed:
  "executed p \<Longrightarrow> execute p args env = (Resolved False, p, report_already_executed env)"
  by (simp add: execute_def executeWithoutErrorHandling_executed execute_catch_def
        already_executed_def trim_already_executed report_already_executed_def Let_def)

lemma calls_executed:
  "executed p \<Longrightarrow>
     fst (calls cs p env) = map (\<lambda>c. usage_fault_outcome (fst c)) cs \<and> fst (snd (calls cs p env)) = p"
proof (induction cs arbitrary: env)
  case Nil
  then show ?case by simp
next
  case (Cons c cs)
  obtain e args where c: "c = (e, args)" by (cases c)
  show ?case
  proof (cases e)
    case Execute
    with Cons c show ?thesis
      by (simp add: execute_executed usage_fault_outcome_def case_prod_beta)
  next
    case ExecuteWithoutErrorHandling
    with Cons c show ?thesis
      by (simp add: executeWithoutErrorHandling_executed usage_fault_outcome_def case_prod_beta)
  qed
qed

lemma calls_Cons:
  "calls ((e, args) # cs) p env =
     (case calls [(e, args)] p env of
        (rs, p1, env1) \<Rightarrow> (case calls cs p1 env1 of (rs', p2, env2) \<Rightarrow> (rs @ rs', p2, env2)))"
  by (cases e) (simp_all split: prod.splits)

lemma calls_single_parser:
  "fst (snd (calls [(e, args)] p env)) =
     (case e of Execute \<Rightarrow> fst (snd (execute p args env))
      | ExecuteWithoutErrorHandling \<Rightarrow> fst (snd (executeWithoutErrorHandling p args env)))"
  by (cases e) (simp_all split: prod.splits)

lemma execute_help_path:
  assumes "\<not> executed p" and "(case args of None \<Rightarrow> drop 2 (argv env) | Some a \<Rightarrow> a) = []"
  shows "execute p args env =
           (Resolved True, p\<lparr>executed := True\<rparr>, printHelp (argumentParser p) (registered p) env)"
  using try_block_help [OF assms] by (simp add: execute_def executeWithoutErrorHandling_def)

text \<open>
  C2 (as stated). The second call is made through \<open>execute\<close>: the usage fault does not
  reach the caller, the promise resolves to \<open>False\<close>.
\<close>

theorem second_execute_resolves_false:
  "fst (execute (fst (snd (execute example_parser (Some []) example_process))) (Some [])
        (snd (snd (execute example_parser (Some []) example_process)))) = Resolved False"
  by (simp add: execute_executed executed_after_execute)

text \<open>
  C2 (amended). After a first call to either entry point, with any arguments, a second
  call to \<open>executeWithoutErrorHandling\<close> returns a promise rejected with the usage
  fault, whatever its arguments; a second call to \<open>execute\<close> reports the same fault on
  standard error, sets the exit code to 1 unless a nonzero code is set, and resolves to
  \<open>False\<close>. Neither changes the parser.
\<close>

theorem second_call_usage_fault:
  assumes "p1 = fst (snd (execute p args1 env)) \<or> p1 = fst (snd (executeWithoutErrorHandling p args1 env))"
  shows "executeWithoutErrorHandling p1 args2 env1 = (Rejected already_executed, p1, env1) \<and>
         execute p1 args2 env1 = (Resolved False, p1, report_already_executed env1)"
proof -
  from assms have "executed p1"
    by (auto simp: executed_after_execute executed_after_executeWithoutErrorHandling)
  then show ?thesis
    by (simp add: executeWithoutErrorHandling_executed execute_executed)
qed

theorem second_call_usage_fault_witness:
  "executeWithoutErrorHandling (fst (snd (execute example_parser (Some [''build'']) example_process)))
     (Some [''deploy'']) example_process
   = (Rejected already_executed,
      fst (snd (execute example_parser (Some [''build'']) example_process)), example_process) \<and>
   execute (fst (snd (execute example_parser (Some [''build'']) example_process)))
     (Some [''deploy'']) example_process
   = (Resolved False, fst (snd (execute example_parser (Some [''build'']) example_process)),
      example_process\<lparr>exitCode := Some 1,
        stderr := [Red ''Error: execute() was already called for this parser instance'']\<rparr>)"
  using second_call_usage_fault
    [of "fst (snd (execute example_parser (Some [''build'']) example_process))"
        example_parser "Some [''build'']" example_process "Some [''deploy'']" example_process]
  by (simp add: report_already_executed_def example_process_def console_error_def
        exitCode_falsy_def)

text \<open>
  C9. Whatever the arguments, the parser is marked executed after a first call to either
  entry point; on a fresh parser the help path and a failed grammar parse change nothing
  else in it, so no action has run. In every sequence of calls, each call after the first
  ends in the usage fault (a rejection from \<open>executeWithoutErrorHandling\<close>, \<open>False\<close>
  from \<open>execute\<close>) and leaves the parser as the first call left it.
\<close>

theorem first_call_consumes_parser:
  "executed (fst (snd (executeWithoutErrorHandling p args env))) \<and>
   executed (fst (snd (execute p args env))) \<and>
   (\<not> executed p \<and> (case args of None \<Rightarrow> drop 2 (argv env) | Some a \<Rightarrow> a) = [] \<longrightarrow>
      fst (snd (executeWithoutErrorHandling p args env)) = p\<lparr>executed := True\<rparr>) \<and>
   (\<not> executed p \<and> (case args of None \<Rightarrow> drop 2 (argv env) | Some a \<Rightarrow> a) \<noteq> [] \<and>
    fst (parseArgs (argumentParser p) (registered p)
           (case args of None \<Rightarrow> drop 2 (argv env) | Some a \<Rightarrow> a) env) = Inl err \<longrightarrow>
      fst (snd (executeWithoutErrorHandling p args env)) = p\<lparr>executed := True\<rparr>) \<and>
   tl (fst (calls ((e, args) # cs) p env)) = map (\<lambda>c. usage_fault_outcome (fst c)) cs \<and>
   fst (snd (calls ((e, args) # cs) p env)) = fst (snd (calls [(e, args)] p env))"
proof -
  let ?args1 = "case args of None \<Rightarrow> drop 2 (argv env) | Some a \<Rightarrow> a"
  have nohelp: "fst (snd (executeWithoutErrorHandling p args env)) = p\<lparr>executed := True\<rparr>"
    if "\<not> executed p" and "?args1 = []"
    using try_block_help [OF that] by (simp add: executeWithoutErrorHandling_parser)
  have parse: "fst (snd (executeWithoutErrorHandling p args env)) = p\<lparr>executed := True\<rparr>"
    if fresh: "\<not> executed p" and nonempty: "?args1 \<noteq> []"
      and fails: "fst (parseArgs (argumentParser p) (registered p) ?args1 env) = Inl err"
  proof -
    obtain env1 where "parseArgs (argumentParser p) (registered p) ?args1 env = (Inl err, env1)"
      using fails by (cases "parseArgs (argumentParser p) (registered p) ?args1 env") simp
    from try_block_parse_fault [OF fresh refl nonempty this]
    show ?thesis by (simp add: executeWithoutErrorHandling_parser)
  qed
  have first: "executed (fst (snd (calls [(e, args)] p env)))"
    unfolding calls_single_parser
    by (cases e) (simp_all add: executed_after_execute executed_after_executeWithoutErrorHandling)
  obtain rs p1 env1 where single: "calls [(e, args)] p env = (rs, p1, env1)"
    by (cases "calls [(e, args)] p env")
  then have len: "length rs = 1"
    by (cases e) (auto split: prod.splits)
  from first single have "executed p1" by simp
  from calls_executed [OF this, of cs env1] single len
  have later: "tl (fst (calls ((e, args) # cs) p env)) = map (\<lambda>c. usage_fault_outcome (fst c)) cs"
    and same: "fst (snd (calls ((e, args) # cs) p env)) = fst (snd (calls [(e, args)] p env))"
    by (cases rs; simp add: calls_Cons [of e args cs] case_prod_beta)+
  show ?thesis
    using nohelp parse later same
    by (simp add: executed_after_execute executed_after_executeWithoutErrorHandling)
qed

theorem first_call_consumes_parser_witness:
  "fst (calls [(Execute, Some []), (Execute, Some [''build'']), (ExecuteWithoutErrorHandling, None)]
         example_parser example_process) =
     [ExecuteResult (Resolved True), ExecuteResult (Resolved False),
      ExecuteWithoutErrorHandlingResult (Rejected already_executed)] \<and>
   fst (snd (executeWithoutErrorHandling example_parser (Some []) example_process)) =
     example_parser\<lparr>executed := True\<rparr> \<and>
   fst (snd (executeWithoutErrorHandling example_parser (Some [''nope'']) example_process)) =
     example_parser\<lparr>executed := True\<rparr>"
proof -
  have 1: "fst (calls [(Execute, Some [])] example_parser example_process) = [ExecuteResult (Resolved True)]"
    by (simp add: execute_help_path example_parser_simps)
  have 2: "fst (parseArgs (argumentParser example_parser) (registered example_parser)
              [''nope''] example_process) = Inl (CommandLineParserExitError 2 ''tool: error: invalid choice'')"
    by (simp add: example_parser_simps example_engine_def registered_def example_objects_def)
  show ?thesis
    using first_call_consumes_parser [of example_parser "Some []" example_process _ Execute
        "[(Execute, Some [''build'']), (ExecuteWithoutErrorHandling, None)]"]
      first_call_consumes_parser [of example_parser "Some [''nope'']" example_process
        "CommandLineParserExitError 2 ''tool: error: invalid choice''" Execute "[]"] 1 2
    apply (simp add: example_parser_simps usage_fault_outcome_def del: calls.simps)
    apply (cases "fst (calls [(Execute, Some []), (Execute, Some [''build'']), (ExecuteWithoutErrorHandling, None)]
         example_parser example_process)")
     apply (simp_all add: case_prod_beta)
    done
qed

section \<open>The registry of actions\<close>

lemma addAction_returns:
  "buildParser (argumentParser p) (objects p r) = None \<Longrightarrow>
     addAction p r =
       (None, p\<lparr>actions := actions p @ [r],
                actionsByName := (actionsByName p)(actionName (objects p r) \<mapsto> r)\<rparr>)"
  by (simp add: addAction_def)

lemma addAction_throws:
  "buildParser (argumentParser p) (objects p r) = Some err \<Longrightarrow> addAction p r = (Some err, p)"
  by (simp add: addAction_def)

lemma addAction_keeps:
  "executed (snd (addAction p r)) = executed p"
  "selectedAction (snd (addAction p r)) = selectedAction p"
  "objects (snd (addAction p r)) = objects p"
  by (simp_all add: addAction_def split: option.splits)

lemma find_filter_hd:
  "find P xs = (if filter P xs = [] then None else Some (hd (filter P xs)))"
  by (induction xs) simp_all

lemma find_rev_filter_last:
  "find P (rev xs) = (if filter P xs = [] then None else Some (last (filter P xs)))"
  by (induction xs rule: rev_induct) simp_all

lemma find_rev_distinct:
  "distinct (map f xs) \<Longrightarrow> x \<in> set xs \<Longrightarrow> find (\<lambda>y. f y = f x) (rev xs) = Some x"
  by (induction xs rule: rev_induct) auto

lemma find_rev_absent:
  "n \<notin> f ` set xs \<Longrightarrow> find (\<lambda>y. f y = n) (rev xs) = None"
  by (induction xs rule: rev_induct) auto

lemma hd_last_distinct:
  "distinct xs \<Longrightarrow> 2 \<le> length xs \<Longrightarrow> hd xs \<noteq> last xs"
  by (cases xs) auto

lemma addAction_registry:
  assumes "actionsByName p n = find (\<lambda>r. actionName (objects p r) = n) (rev (actions p))"
  shows "actionsByName (snd (addAction p r)) n =
           find (\<lambda>r'. actionName (objects (snd (addAction p r)) r') = n) (rev (actions (snd (addAction p r))))"
  using assms by (auto simp: addAction_def split: option.splits)

lemma try_block_registry:
  assumes "actionsByName p n = find (\<lambda>r. actionName (objects p r) = n) (rev (actions p))"
  shows "actionsByName (fst (snd (try_block p args env))) n =
           find (\<lambda>r. actionName (objects (fst (snd (try_block p args env))) r) = n)
             (rev (actions (fst (snd (try_block p args env)))))"
  using assms by (simp add: try_block_keeps)

lemma reachable_registry:
  "reachable p \<Longrightarrow>
     actionsByName p n = find (\<lambda>r. actionName (objects p r) = n) (rev (actions p))"
proof (induction rule: reachable.induct)
  case (constructed filename description engine globalParameters store)
  show ?case by (simp add: new_CommandLineParser_def)
next
  case (added p r)
  from added.IH show ?case by (rule addAction_registry)
next
  case (executed_without_error_handling p args env)
  from executed_without_error_handling.IH show ?case
    unfolding executeWithoutErrorHandling_parser by (rule try_block_registry)
next
  case (executed_with_error_handling p args env)
  from executed_with_error_handling.IH show ?case
    unfolding execute_parser executeWithoutErrorHandling_parser by (rule try_block_registry)
qed

lemma reachable_fresh_unselected:
  "reachable p \<Longrightarrow> \<not> executed p \<Longrightarrow> selectedAction p = None"
proof (induction rule: reachable.induct)
  case (constructed filename description engine globalParameters store)
  show ?case by (simp add: new_CommandLineParser_def)
next
  case (added p r)
  then show ?case by (simp add: addAction_keeps)
next
  case (executed_without_error_handling p args env)
  then show ?case by (simp add: executed_after_executeWithoutErrorHandling)
next
  case (executed_with_error_handling p args env)
  then show ?case by (simp add: executed_after_execute)
qed

text \<open>
  C6 (as stated). A second action named \<^verbatim>\<open>build\<close> is registered on a parser that has one:
  \<open>addAction\<close> raises nothing and the registry grows.
\<close>

theorem duplicate_name_is_registered:
  "actionName (example_objects 0) = actionName (example_objects 1) \<and>
   actions (snd (addAction example_new 0)) = [0] \<and>
   addAction (snd (addAction example_new 0)) 1 = (None, duplicate_parser) \<and>
   actions duplicate_parser = [0, 1]"
  by (simp add: duplicate_parser_def addAction_def example_new_simps example_objects_def)

text \<open>
  C6 (amended). \<open>addAction\<close> does not look at the names already registered. Whenever the
  action's \<^verbatim>\<open>_buildParser\<close> returns, the action is appended to the ordered registry and
  its name is mapped to it, replacing the entry of an earlier action of that name; when
  \<^verbatim>\<open>_buildParser\<close> throws, that fault propagates and the parser is unchanged.
\<close>

theorem addAction_appends:
  "(buildParser (argumentParser p) (objects p r) = None \<longrightarrow>
      fst (addAction p r) = None \<and>
      actions (snd (addAction p r)) = actions p @ [r] \<and>
      actionsByName (snd (addAction p r)) = (actionsByName p)(actionName (objects p r) \<mapsto> r)) \<and>
   (buildParser (argumentParser p) (objects p r) = Some err \<longrightarrow> addAction p r = (Some err, p))"
  by (simp add: addAction_def)

theorem addAction_appends_witness:
  "fst (addAction (snd (addAction example_new 0)) 2) = None \<and>
   actions (snd (addAction (snd (addAction example_new 0)) 2)) = [0, 2] \<and>
   fst (addAction (snd (addAction example_new 0)) 1) = None \<and>
   actions (snd (addAction (snd (addAction example_new 0)) 1)) = [0, 1] \<and>
   actionsByName (snd (addAction (snd (addAction example_new 0)) 1)) ''build'' = Some 1"
  using addAction_appends [of example_new 0] addAction_appends [of "snd (addAction example_new 0)" 2]
    addAction_appends [of "snd (addAction example_new 0)" 1]
  by (simp add: example_new_simps addAction_def example_objects_def)

text \<open>
  C7. On a parser reached through the constructor, \<open>addAction\<close> and the execution entry
  points, whose registered actions have pairwise different names: \<open>tryGetAction\<close> and
  \<open>getAction\<close> return a registered action when given its name; for a name that no
  registered action has, \<open>tryGetAction\<close> returns nothing and \<open>getAction\<close> throws.
\<close>

theorem getAction_unique_names:
  assumes "reachable p"
    and "distinct (map (\<lambda>r. actionName (objects p r)) (actions p))"
  shows "(r \<in> set (actions p) \<longrightarrow>
            tryGetAction p (actionName (objects p r)) = Some r \<and>
            getAction p (actionName (objects p r)) = Inr r) \<and>
         (n \<notin> (\<lambda>r. actionName (objects p r)) ` set (actions p) \<longrightarrow>
            tryGetAction p n = None \<and>
            getAction p n = Inl (Error (''The action '' @ [CHR 0x22] @ n @ [CHR 0x22] @ '' was not defined'')))"
proof -
  have known: "tryGetAction p (actionName (objects p r)) = Some r" if "r \<in> set (actions p)"
    using reachable_registry [OF assms(1), of "actionName (objects p r)"]
      find_rev_distinct [OF assms(2) that]
    by (simp add: tryGetAction_def)
  have unknown: "tryGetAction p n = None"
    if "n \<notin> (\<lambda>r. actionName (objects p r)) ` set (actions p)"
    using reachable_registry [OF assms(1), of n] find_rev_absent [OF that]
    by (simp add: tryGetAction_def)
  show ?thesis
    using known unknown by (auto simp: getAction_def)
qed

theorem getAction_unique_names_witness:
  "tryGetAction example_parser ''deploy'' = Some 2 \<and>
   getAction example_parser ''deploy'' = Inr 2 \<and>
   tryGetAction example_parser ''test'' = None \<and>
   getAction example_parser ''test'' = Inl (Error (''The action '' @ [CHR 0x22] @ ''test'' @ [CHR 0x22] @ '' was not defined''))"
  using getAction_unique_names [OF reachable_example_parser, of 2 "''test''"]
  by (simp add: example_parser_simps example_objects_def)

section \<open>Execution without arguments\<close>

text \<open>
  C5. On a parser that has not been executed, \<open>execute\<close> with an empty argument vector
  (given, or taken from a process started without arguments) resolves to \<open>True\<close>; the
  process is left as \<open>printHelp\<close> leaves it, so no action has run; the parser only has
  its executed flag set, so \<open>selectedAction\<close> is as before: unset, on a parser reached
  through its public methods.
\<close>

theorem execute_empty_arguments:
  assumes "\<not> executed p"
    and "args = Some [] \<or> (args = None \<and> drop 2 (argv env) = [])"
  shows "execute p args env =
           (Resolved True, p\<lparr>executed := True\<rparr>, printHelp (argumentParser p) (registered p) env) \<and>
         selectedAction (fst (snd (execute p args env))) = selectedAction p \<and>
         objects (fst (snd (execute p args env))) = objects p \<and>
         (reachable p \<longrightarrow> selectedAction (fst (snd (execute p args env))) = None)"
proof -
  from assms(2) have "(case args of None \<Rightarrow> drop 2 (argv env) | Some a \<Rightarrow> a) = []"
    by auto
  with assms(1) have "execute p args env =
      (Resolved True, p\<lparr>executed := True\<rparr>, printHelp (argumentParser p) (registered p) env)"
    by (rule execute_help_path)
  then show ?thesis
    using reachable_fresh_unselected [OF _ assms(1)] by simp
qed

theorem execute_empty_arguments_witness:
  "execute example_parser (Some []) example_process =
     (Resolved True, example_parser\<lparr>executed := True\<rparr>,
      example_process\<lparr>stdout := [Plain ''usage: tool <command>'']\<rparr>) \<and>
   selectedAction (fst (snd (execute example_parser (Some []) example_process))) = None \<and>
   execute example_parser None example_process =
     (Resolved True, example_parser\<lparr>executed := True\<rparr>,
      example_process\<lparr>stdout := [Plain ''usage: tool <command>'']\<rparr>)"
  using execute_empty_arguments [of example_parser "Some []" example_process]
    execute_empty_arguments [of example_parser None example_process] reachable_example_parser
  by (simp add: example_parser_simps example_engine_def example_process_def console_log_def)

section \<open>Faults and their translation\<close>

lemma executeWithoutErrorHandling_returned_promise:
  "try_block p args env = (Inr promise, p', env') \<Longrightarrow>
     executeWithoutErrorHandling p args env = (promise, p', env')"
  by (simp add: executeWithoutErrorHandling_def)

lemma executeWithoutErrorHandling_zero_exit:
  "try_block p args env = (Inl (CommandLineParserExitError 0 msg), p', env') \<Longrightarrow>
     executeWithoutErrorHandling p args env =
       (Resolved (), p', if msg \<noteq> [] then console_log msg env' else env')"
  by (simp add: executeWithoutErrorHandling_def catch_block_def)

lemma executeWithoutErrorHandling_nonzero_exit:
  "try_block p args env = (Inl (CommandLineParserExitError code msg), p', env') \<Longrightarrow> code \<noteq> 0 \<Longrightarrow>
     executeWithoutErrorHandling p args env = (Rejected (CommandLineParserExitError code msg), p', env')"
  by (simp add: executeWithoutErrorHandling_def catch_block_def)

lemma executeWithoutErrorHandling_ordinary_fault:
  "try_block p args env = (Inl err, p', env') \<Longrightarrow> err = Error msg \<or> err = Nullish \<Longrightarrow>
     executeWithoutErrorHandling p args env = (Rejected err, p', env')"
  by (auto simp: executeWithoutErrorHandling_def catch_block_def)

lemma executeWithoutErrorHandling_rejects_zero_exit_iff:
  "fst (executeWithoutErrorHandling p args env) = Rejected (CommandLineParserExitError 0 msg) \<longleftrightarrow>
     fst (try_block p args env) = Inr (Rejected (CommandLineParserExitError 0 msg))"
  by (auto simp: executeWithoutErrorHandling_def catch_block_def
        split: prod.splits sum.splits fault.splits if_splits)

lemma execute_on_success:
  "executeWithoutErrorHandling p args env = (Resolved u, p', env') \<Longrightarrow>
     execute p args env = (Resolved True, p', env')"
  by (simp add: execute_def)

lemma execute_on_pending:
  "executeWithoutErrorHandling p args env = (Pending, p', env') \<Longrightarrow>
     execute p args env = (Pending, p', env')"
  by (simp add: execute_def)

lemma execute_on_exit_signal:
  "executeWithoutErrorHandling p args env = (Rejected (CommandLineParserExitError code msg), p', env') \<Longrightarrow>
     execute p args env =
       (Resolved False, p',
        env'\<lparr>exitCode := (if exitCode_falsy env' then Some code else exitCode env'),
             stderr := stderr env' @ (if msg \<noteq> [] then [Plain msg] else [])\<rparr>)"
  by (simp add: execute_def execute_catch_def Let_def console_error_def exitCode_falsy_def)

lemma execute_on_ordinary_fault:
  "executeWithoutErrorHandling p args env = (Rejected (Error msg), p', env') \<Longrightarrow>
     execute p args env =
       (Resolved False, p',
        env'\<lparr>exitCode := (if exitCode_falsy env' then Some 1 else exitCode env'),
             stderr := stderr env' @
               [Red (''Error: '' @ trim (if msg \<noteq> [] then msg else ''An unknown error occurred''))]\<rparr>)"
  by (simp add: execute_def execute_catch_def Let_def console_error_def exitCode_falsy_def)

lemma execute_on_nullish_fault:
  "executeWithoutErrorHandling p args env = (Rejected Nullish, p', env') \<Longrightarrow>
     execute p args env = (Rejected TypeError_message, p', env')"
  by (simp add: execute_def execute_catch_def)

lemma execute_rejects_iff:
  "(\<exists>err. fst (execute p args env) = Rejected err) \<longleftrightarrow>
     fst (executeWithoutErrorHandling p args env) = Rejected Nullish"
  by (auto simp: execute_def execute_catch_def Let_def split: prod.splits promise.splits fault.splits)

text \<open>
  C1. The claim says that \<open>execute\<close> never rejects. When the selected action's body
  returns \<^verbatim>\<open>Promise.reject()\<close>, the rejection handler of \<open>execute\<close> reads \<^verbatim>\<open>.message\<close>
  of \<^verbatim>\<open>undefined\<close>, which raises a TypeError inside the handler: the promise that
  \<open>execute\<close> returns is rejected, nothing is written to standard error and the exit
  code stays unset.
\<close>

theorem execute_rejects_on_nullish_rejection:
  "fst (execute example_parser (Some [''deploy'']) example_process) = Rejected TypeError_message \<and>
   stderr (snd (snd (execute example_parser (Some [''deploy'']) example_process))) = [] \<and>
   exitCode (snd (snd (execute example_parser (Some [''deploy'']) example_process))) = None"
  by (simp add: execute_def executeWithoutErrorHandling_def onExecute_def
        try_block_def Let_def example_parser_simps example_engine_def registered_def
        example_objects_def processParsedData_def execute_catch_def example_process_def)

text \<open>
  C3. The claim says that an Exit Signal with exit code 0 makes
  \<open>executeWithoutErrorHandling\<close> write the message to standard output and resolve. When
  the selected action's body returns a promise rejected with
  \<^verbatim>\<open>new CommandLineParserExitError(0, 'published')\<close>, the call returns that rejected
  promise and writes nothing to standard output; \<open>execute\<close> then writes the message to
  standard error and resolves to \<open>False\<close>.
\<close>

theorem zero_exit_rejection_is_not_recovered:
  "fst (executeWithoutErrorHandling example_parser (Some [''publish'']) example_process) =
     Rejected (CommandLineParserExitError 0 ''published'') \<and>
   stdout (snd (snd (executeWithoutErrorHandling example_parser (Some [''publish'']) example_process))) = [] \<and>
   fst (execute example_parser (Some [''publish'']) example_process) = Resolved False \<and>
   stderr (snd (snd (execute example_parser (Some [''publish'']) example_process))) = [Plain ''published'']"
  by (simp add: execute_def executeWithoutErrorHandling_def onExecute_def
        try_block_def Let_def example_parser_simps example_engine_def registered_def
        example_objects_def processParsedData_def execute_catch_def example_process_def
        console_error_def exitCode_falsy_def)

section \<open>Dispatch to the selected action\<close>

lemma parameter_value_processParsedData:
  "key \<in> set (parameters provider) \<Longrightarrow>
     parameter_value (processParsedData provider data) key = Inr (rawValues data key)"
  by (simp add: parameter_value_def processParsedData_def)

text \<open>
  C4. On a parser that has not been executed, let the grammar accept the arguments with
  parsed data \<open>data\<close>, and let \<open>r\<close> be the first registered action whose name is the
  action name of \<open>data\<close>. After \<open>execute\<close> (and after \<open>executeWithoutErrorHandling\<close>),
  however the action's body ends, \<open>selectedAction\<close> is \<open>r\<close>, a registered action with
  that name; its parsed values are those of \<open>data\<close> for its declared parameters, so each
  of its parameter handles reads the value \<open>data\<close> has for its key; the parser's own
  parameters hold the values of \<open>data\<close> too.
\<close>

theorem selectedAction_after_execute:
  assumes "\<not> executed p"
    and "(case args of None \<Rightarrow> drop 2 (argv env) | Some a \<Rightarrow> a) = args1"
    and "args1 \<noteq> []"
    and "parseArgs (argumentParser p) (registered p) args1 env = (Inr data, env1)"
    and "find (\<lambda>r. actionName (objects p r) = action data) (actions p) = Some r"
    and "p' = fst (snd (execute p args env))"
  shows "p' = fst (snd (executeWithoutErrorHandling p args env)) \<and>
         selectedAction p' = Some r \<and>
         r \<in> set (actions p') \<and>
         actionName (objects p' r) = action data \<and>
         parsedValues (objects p' r) = Some (rawValues data |` set (parameters (objects p r))) \<and>
         parameters (objects p' r) = parameters (objects p r) \<and>
         (\<forall>key. key \<in> set (parameters (objects p r)) \<longrightarrow>
                parameter_value (objects p' r) key = Inr (rawValues data key)) \<and>
         parsedValues p' = Some (rawValues data |` set (parameters p))"
proof -
  have p': "p' = p\<lparr>parsedValues := Some (rawValues data |` set (parameters p)),
                   executed := True, selectedAction := Some r,
                   objects := (objects p)(r := processParsedData (objects p r) data)\<rparr>"
    using try_block_dispatch [OF assms(1-5)] assms(6)
    by (simp add: execute_parser executeWithoutErrorHandling_parser)
  from assms(5) have r: "r \<in> set (actions p)" and name: "actionName (objects p r) = action data"
    by (auto simp: find_Some_iff)
  have same: "p' = fst (snd (executeWithoutErrorHandling p args env))"
    using assms(6) by (simp add: execute_parser)
  have about_r: "selectedAction p' = Some r \<and> r \<in> set (actions p') \<and>
      actionName (objects p' r) = action data \<and>
      parsedValues (objects p' r) = Some (rawValues data |` set (parameters (objects p r))) \<and>
      parameters (objects p' r) = parameters (objects p r) \<and>
      parsedValues p' = Some (rawValues data |` set (parameters p))"
    using r name unfolding p' by (simp add: processParsedData_def)
  have handles: "parameter_value (objects p' r) key = Inr (rawValues data key)"
    if "key \<in> set (parameters (objects p r))" for key
    using that unfolding p' by (simp add: parameter_value_processParsedData)
  show ?thesis
    using same about_r handles by blast
qed

theorem selectedAction_after_execute_witness:
  "selectedAction (fst (snd (execute example_parser (Some [''build'', ''--verbose'']) example_process))) = Some 0 \<and>
   actionName (objects (fst (snd (execute example_parser (Some [''build'', ''--verbose'']) example_process))) 0) = ''build'' \<and>
   parameter_value
     (objects (fst (snd (execute example_parser (Some [''build'', ''--verbose'']) example_process))) 0)
     ''verbose'' = Inr (Some (FlagValue True))"
proof -
  have parse: "parseArgs (argumentParser example_parser) (registered example_parser)
      [''build'', ''--verbose''] example_process =
      (Inr \<lparr>action = ''build'', rawValues = [''verbose'' \<mapsto> FlagValue True]\<rparr>, example_process)"
    by (simp add: example_parser_simps example_engine_def registered_def example_objects_def)
  have found: "find (\<lambda>r. actionName (objects example_parser r) =
        action \<lparr>action = ''build'', rawValues = [''verbose'' \<mapsto> FlagValue True]\<rparr>)
      (actions example_parser) = Some 0"
    by (simp add: example_parser_simps example_objects_def)
  have fresh: "\<not> executed example_parser"
    by (simp add: example_parser_simps)
  have args: "(case Some [''build'', ''--verbose''] of None \<Rightarrow> drop 2 (argv example_process) | Some a \<Rightarrow> a)
      = [''build'', ''--verbose'']"
    by simp
  show ?thesis
    using selectedAction_after_execute [OF fresh args _ parse found refl]
    by (simp add: example_parser_simps example_objects_def execute_parser)
qed

text \<open>
  C10. On a parser reached through its public methods and not yet executed, let the
  grammar accept the arguments with parsed data \<open>data\<close>, and let \<open>rs\<close>, not empty, be the
  registered actions whose name is the action name of \<open>data\<close>, in registration order.
  Execution selects the first of \<open>rs\<close>; \<open>tryGetAction\<close> and \<open>getAction\<close> return the
  last of \<open>rs\<close>, before and after the execution. When \<open>rs\<close> has two or more actions and
  no action object is registered twice, the two differ.
\<close>

theorem dispatch_first_lookup_last:
  assumes "reachable p"
    and "\<not> executed p"
    and "(case args of None \<Rightarrow> drop 2 (argv env) | Some a \<Rightarrow> a) = args1"
    and "args1 \<noteq> []"
    and "parseArgs (argumentParser p) (registered p) args1 env = (Inr data, env1)"
    and "filter (\<lambda>r. actionName (objects p r) = action data) (actions p) = rs"
    and "rs \<noteq> []"
    and "p' = fst (snd (executeWithoutErrorHandling p args env))"
  shows "selectedAction p' = Some (hd rs) \<and>
         tryGetAction p (action data) = Some (last rs) \<and>
         getAction p (action data) = Inr (last rs) \<and>
         tryGetAction p' (action data) = Some (last rs) \<and>
         getAction p' (action data) = Inr (last rs) \<and>
         (distinct (actions p) \<and> 2 \<le> length rs \<longrightarrow> hd rs \<noteq> last rs)"
proof -
  have first: "find (\<lambda>r. actionName (objects p r) = action data) (actions p) = Some (hd rs)"
    using assms(6,7) by (simp add: find_filter_hd)
  have selected: "selectedAction p' = Some (hd rs)"
    using try_block_dispatch [OF assms(2-5) first] assms(8)
    by (simp add: executeWithoutErrorHandling_parser)
  have lookup: "tryGetAction p (action data) = Some (last rs)"
    using reachable_registry [OF assms(1), of "action data"] assms(6,7)
    by (simp add: tryGetAction_def find_rev_filter_last)
  have same: "tryGetAction p' (action data) = tryGetAction p (action data)"
    using assms(8)
    by (simp add: tryGetAction_def executeWithoutErrorHandling_parser try_block_keeps)
  have differ: "hd rs \<noteq> last rs" if "distinct (actions p)" and "2 \<le> length rs"
  proof -
    from that(1) assms(6) have "distinct rs" by auto
    then show ?thesis using that(2) by (rule hd_last_distinct)
  qed
  show ?thesis
    using selected lookup same differ by (simp add: getAction_def)
qed

theorem dispatch_first_lookup_last_witness:
  "selectedAction (fst (snd (executeWithoutErrorHandling duplicate_parser (Some [''build'']) example_process)))
     = Some 0 \<and>
   tryGetAction duplicate_parser ''build'' = Some 1 \<and>
   getAction duplicate_parser ''build'' = Inr 1"
proof -
  have parse: "parseArgs (argumentParser duplicate_parser) (registered duplicate_parser)
      [''build''] example_process =
      (Inr \<lparr>action = ''build'', rawValues = [''verbose'' \<mapsto> FlagValue False]\<rparr>, example_process)"
    by (simp add: duplicate_parser_simps example_engine_def registered_def example_objects_def)
  have both: "filter (\<lambda>r. actionName (objects duplicate_parser r) =
        action \<lparr>action = ''build'', rawValues = [''verbose'' \<mapsto> FlagValue False]\<rparr>)
      (actions duplicate_parser) = [0, 1]"
    by (simp add: duplicate_parser_simps example_objects_def)
  have fresh: "\<not> executed duplicate_parser"
    by (simp add: duplicate_parser_simps)
  have args: "(case Some [''build''] of None \<Rightarrow> drop 2 (argv example_process) | Some a \<Rightarrow> a) = [''build'']"
    by simp
  show ?thesis
    using dispatch_first_lookup_last [OF reachable_duplicate_parser fresh args _ parse both _ refl]
    by simp
qed

end
